theory Spec2Isabelle
  imports Complex_Main "HOL-Library.Code_Target_Numeral"
begin

section \<open>Python values used by evaluate.py\<close>

subsection \<open>Floats\<close>

text \<open>
  A Python \<^verbatim>\<open>float\<close> is an IEEE 754 binary64 number. A finite one is kept by its exact
  rational value; \<open>Finite 0\<close> is \<^verbatim>\<open>0.0\<close> and \<open>NegZero\<close> is \<^verbatim>\<open>-0.0\<close>. Every arithmetic
  operation computes the exact rational result and rounds it to the nearest double, ties
  to the even significand (\<open>round_double\<close>).
\<close>

datatype pyfloat = Finite rat | NegZero | PosInf | NegInf | NaN

fun pow2 :: "int \<Rightarrow> rat" where
  "pow2 k = (if 0 \<le> k then 2 ^ nat k else 1 / 2 ^ nat (- k))"

fun pow10 :: "int \<Rightarrow> rat" where
  "pow10 k = (if 0 \<le> k then 10 ^ nat k else 1 / 10 ^ nat (- k))"

text \<open>\<open>flog2 q\<close> is the binary exponent of \<open>q > 0\<close>: \<open>2 ^ flog2 q \<le> q < 2 ^ (flog2 q + 1)\<close>.\<close>

function log2_up :: "rat \<Rightarrow> int" where
  "log2_up q = (if q < 2 then 0 else 1 + log2_up (q / 2))"
  by pat_completeness auto
termination
proof (relation "measure (\<lambda>q. nat \<lfloor>q\<rfloor>)")
  show "wf (measure (\<lambda>q::rat. nat \<lfloor>q\<rfloor>))" by simp
next
  fix q :: rat
  assume "\<not> q < 2"
  then have "\<lfloor>q / 2\<rfloor> < \<lfloor>q\<rfloor>" "0 < \<lfloor>q\<rfloor>"
    by linarith+
  then show "(q / 2, q) \<in> measure (\<lambda>q. nat \<lfloor>q\<rfloor>)" by simp
qed

function log2_down :: "rat \<Rightarrow> int" where
  "log2_down q = (if q \<le> 0 \<or> 1 \<le> q then 0 else log2_down (2 * q) - 1)"
  by pat_completeness auto
termination
proof (relation "measure (\<lambda>q. nat \<lceil>1 / q\<rceil>)")
  show "wf (measure (\<lambda>q::rat. nat \<lceil>1 / q\<rceil>))" by simp
next
  fix q :: rat
  assume a: "\<not> (q \<le> 0 \<or> 1 \<le> q)"
  define x where "x = 1 / q"
  from a have x1: "1 < x" by (simp add: x_def)
  have xc: "x \<le> of_int \<lceil>x\<rceil>" by (rule le_of_int_ceiling)
  from x1 xc have "(1::rat) < of_int \<lceil>x\<rceil>" by linarith
  then have c2: "2 \<le> \<lceil>x\<rceil>" by linarith
  then have "(2::rat) \<le> of_int \<lceil>x\<rceil>" by linarith
  with xc have "x / 2 \<le> of_int \<lceil>x\<rceil> - 1" by linarith
  then have "x / 2 \<le> of_int (\<lceil>x\<rceil> - 1)" by simp
  then have "\<lceil>x / 2\<rceil> \<le> \<lceil>x\<rceil> - 1" by (simp only: ceiling_le_iff)
  then have lt: "\<lceil>x / 2\<rceil> < \<lceil>x\<rceil>" by linarith
  have e: "1 / (2 * q) = x / 2" by (simp add: x_def)
  from c2 have pos: "0 < \<lceil>x\<rceil>" by linarith
  have "nat \<lceil>1 / (2 * q)\<rceil> < nat \<lceil>1 / q\<rceil>"
    unfolding e using lt pos by (simp only: zless_nat_conj x_def [symmetric])
  then show "(2 * q, q) \<in> measure (\<lambda>q. nat \<lceil>1 / q\<rceil>)"
    by (simp only: in_measure)
qed

declare log2_up.simps [simp del]
declare log2_down.simps [simp del]

definition flog2 :: "rat \<Rightarrow> int" where
  "flog2 q = (if 1 \<le> q then log2_up q else log2_down q)"

definition round_half_even :: "rat \<Rightarrow> int" where
  "round_half_even x =
     (let n = \<lfloor>x\<rfloor>; r = x - of_int n in
      if r < 1 / 2 then n
      else if 1 / 2 < r then n + 1
      else if even n then n else n + 1)"

text \<open>
  Rounding a positive rational: 53 significant bits, the least exponent of a
  significand bit is \<open>-1074\<close> (subnormal numbers), and a result of \<open>2 ^ 1024\<close> or more
  overflows to infinity.
\<close>

definition round_pos :: "rat \<Rightarrow> pyfloat" where
  "round_pos q =
     (let p = max (flog2 q - 52) (- 1074);
          r = of_int (round_half_even (q / pow2 p)) * pow2 p
      in if pow2 1024 \<le> r then PosInf else Finite r)"

fun fneg :: "pyfloat \<Rightarrow> pyfloat" where
  "fneg (Finite q) = (if q = 0 then NegZero else Finite (- q))"
| "fneg NegZero = Finite 0"
| "fneg PosInf = NegInf"
| "fneg NegInf = PosInf"
| "fneg NaN = NaN"

definition round_double :: "rat \<Rightarrow> pyfloat" where
  "round_double q =
     (if q = 0 then Finite 0
      else if 0 < q then round_pos q
      else fneg (round_pos (- q)))"

text \<open>The rounded value of a magnitude \<open>q \<ge> 0\<close> with a sign bit.\<close>

definition round_signed :: "bool \<Rightarrow> rat \<Rightarrow> pyfloat" where
  "round_signed neg q = (if neg then fneg (round_double q) else round_double q)"

fun fval :: "pyfloat \<Rightarrow> rat" where
  "fval (Finite q) = q"
| "fval _ = 0"

fun is_inf :: "pyfloat \<Rightarrow> bool" where
  "is_inf PosInf = True"
| "is_inf NegInf = True"
| "is_inf _ = False"

fun is_finite :: "pyfloat \<Rightarrow> bool" where
  "is_finite (Finite q) = True"
| "is_finite NegZero = True"
| "is_finite _ = False"

fun is_zero :: "pyfloat \<Rightarrow> bool" where
  "is_zero (Finite q) = (q = 0)"
| "is_zero NegZero = True"
| "is_zero _ = False"

fun sign_bit :: "pyfloat \<Rightarrow> bool" where
  "sign_bit (Finite q) = (q < 0)"
| "sign_bit NegZero = True"
| "sign_bit NegInf = True"
| "sign_bit _ = False"

fun fabs :: "pyfloat \<Rightarrow> pyfloat" where
  "fabs (Finite q) = Finite \<bar>q\<bar>"
| "fabs NegZero = Finite 0"
| "fabs PosInf = PosInf"
| "fabs NegInf = PosInf"
| "fabs NaN = NaN"

fun fadd :: "pyfloat \<Rightarrow> pyfloat \<Rightarrow> pyfloat" where
  "fadd NaN _ = NaN"
| "fadd _ NaN = NaN"
| "fadd PosInf NegInf = NaN"
| "fadd NegInf PosInf = NaN"
| "fadd PosInf _ = PosInf"
| "fadd _ PosInf = PosInf"
| "fadd NegInf _ = NegInf"
| "fadd _ NegInf = NegInf"
| "fadd NegZero NegZero = NegZero"
| "fadd a b = round_double (fval a + fval b)"

definition fsub :: "pyfloat \<Rightarrow> pyfloat \<Rightarrow> pyfloat" where
  "fsub a b = fadd a (fneg b)"

definition fmul :: "pyfloat \<Rightarrow> pyfloat \<Rightarrow> pyfloat" where
  "fmul a b =
     (if a = NaN \<or> b = NaN then NaN
      else if is_inf a \<or> is_inf b then
        (if is_zero a \<or> is_zero b then NaN
         else if sign_bit a \<noteq> sign_bit b then NegInf else PosInf)
      else round_signed (sign_bit a \<noteq> sign_bit b) (\<bar>fval a\<bar> * \<bar>fval b\<bar>))"

text \<open>
  Comparisons: every comparison with \<^verbatim>\<open>nan\<close> is false, the two zeros are equal. Python
  compares an \<^verbatim>\<open>int\<close> with a \<^verbatim>\<open>float\<close> by their exact values, so an integer operand \<open>i\<close>
  of a comparison is written \<open>Finite (of_int i)\<close>, not rounded.
\<close>

fun flt :: "pyfloat \<Rightarrow> pyfloat \<Rightarrow> bool" where
  "flt NaN _ = False"
| "flt _ NaN = False"
| "flt PosInf _ = False"
| "flt _ NegInf = False"
| "flt NegInf _ = True"
| "flt _ PosInf = True"
| "flt a b = (fval a < fval b)"

fun feq :: "pyfloat \<Rightarrow> pyfloat \<Rightarrow> bool" where
  "feq NaN _ = False"
| "feq _ NaN = False"
| "feq PosInf b = (b = PosInf)"
| "feq NegInf b = (b = NegInf)"
| "feq _ PosInf = False"
| "feq _ NegInf = False"
| "feq a b = (fval a = fval b)"

definition fle :: "pyfloat \<Rightarrow> pyfloat \<Rightarrow> bool" where
  "fle a b = (flt a b \<or> feq a b)"

definition fgt :: "pyfloat \<Rightarrow> pyfloat \<Rightarrow> bool" where
  "fgt a b = flt b a"

subsection \<open>Errors\<close>

text \<open>
  The exceptions the program can raise. \<open>ValueError\<close> carries the message of a
  \<^verbatim>\<open>raise ValueError("...")\<close> of the source; \<open>ScoreOutOfRange score\<close> is
  \<^verbatim>\<open>ValueError(f"Score {score} out of range")\<close>; \<open>FloatValueError s\<close> is the \<^verbatim>\<open>ValueError\<close>
  of \<^verbatim>\<open>float(s)\<close> on a text that is no float literal; \<open>KeyError k\<close> is a failed
  dictionary lookup; \<open>TypeError\<close> is \<^verbatim>\<open>float(x)\<close> on an \<open>x\<close> that is neither text nor a number
  and \<open>AttributeError\<close> is \<^verbatim>\<open>None.strip()\<close>.
\<close>

datatype error =
    ValueError string
  | ScoreOutOfRange pyfloat
  | FloatValueError string
  | KeyError string
  | TypeError
  | AttributeError
  | ZeroDivisionError
  | OverflowError
  | FileNotFoundError

text \<open>\<^verbatim>\<open>a / b\<close> on floats raises when the divisor is a zero.\<close>

definition fdiv :: "pyfloat \<Rightarrow> pyfloat \<Rightarrow> error + pyfloat" where
  "fdiv a b =
     (if is_zero b then Inl ZeroDivisionError
      else Inr
        (if a = NaN \<or> b = NaN then NaN
         else if is_inf a then
           (if is_inf b then NaN
            else if sign_bit a \<noteq> sign_bit b then NegInf else PosInf)
         else if is_inf b then
           (if sign_bit a \<noteq> sign_bit b then NegZero else Finite 0)
         else round_signed (sign_bit a \<noteq> sign_bit b) (\<bar>fval a\<bar> / \<bar>fval b\<bar>)))"

text \<open>
  An \<^verbatim>\<open>int\<close> operand of float arithmetic is converted first: rounded to the nearest
  double, \<^verbatim>\<open>OverflowError\<close> when it is too large.
\<close>

definition float_of_int :: "int \<Rightarrow> error + pyfloat" where
  "float_of_int i =
     (case round_double (of_int i) of
        PosInf \<Rightarrow> Inl OverflowError
      | NegInf \<Rightarrow> Inl OverflowError
      | f \<Rightarrow> Inr f)"

subsection \<open>Text\<close>

text \<open>
  Text is a \<open>string\<close>, one \<open>char\<close> per code point below 256. \<open>is_space\<close> is
  \<^verbatim>\<open>str.isspace\<close> on these code points and \<open>strip\<close> is \<^verbatim>\<open>str.strip()\<close>.
\<close>

definition is_space :: "char \<Rightarrow> bool" where
  "is_space c =
     (let n = (of_char c :: nat) in
      (9 \<le> n \<and> n \<le> 13) \<or> (28 \<le> n \<and> n \<le> 32) \<or> n = 133 \<or> n = 160)"

definition strip :: "string \<Rightarrow> string" where
  "strip s = rev (dropWhile is_space (rev (dropWhile is_space s)))"

definition digit_val :: "char \<Rightarrow> nat option" where
  "digit_val c =
     (let n = (of_char c :: nat) in if 48 \<le> n \<and> n \<le> 57 then Some (n - 48) else None)"

definition to_lower :: "char \<Rightarrow> char" where
  "to_lower c =
     (let n = (of_char c :: nat) in if 65 \<le> n \<and> n \<le> 90 then char_of (n + 32) else c)"

text \<open>
  \<^verbatim>\<open>float(s)\<close> on text. The whitespace dropped around the number is not that of
  \<^verbatim>\<open>str.strip()\<close>: \<^verbatim>\<open>float\<close> turns the whitespace above the ASCII range into blanks and
  then skips the characters of C's \<^verbatim>\<open>isspace\<close>, so the four separators \<open>0x1C\<close> to \<open>0x1F\<close>
  stay and make the text no number. What is left must be
  \<^verbatim>\<open>[sign] (digits [. digits] | . digits) [(e|E) [sign] digits]\<close> or, in any letter case,
  \<^verbatim>\<open>inf\<close>, \<^verbatim>\<open>infinity\<close> or \<^verbatim>\<open>nan\<close> with an optional sign; digits may be grouped by single
  underscores. The value is the decimal number rounded to the nearest double.
\<close>

definition is_float_space :: "char \<Rightarrow> bool" where
  "is_float_space c =
     (let n = (of_char c :: nat) in
      (9 \<le> n \<and> n \<le> 13) \<or> n = 32 \<or> n = 133 \<or> n = 160)"

definition float_strip :: "string \<Rightarrow> string" where
  "float_strip s = rev (dropWhile is_float_space (rev (dropWhile is_float_space s)))"

fun digitpart_tail :: "string \<Rightarrow> nat list \<times> string" where
  "digitpart_tail (c # c' # cs) =
     (if c = CHR ''_'' then
        (case digit_val c' of
           Some d \<Rightarrow> (let (ds, r) = digitpart_tail cs in (d # ds, r))
         | None \<Rightarrow> ([], c # c' # cs))
      else
        (case digit_val c of
           Some d \<Rightarrow> (let (ds, r) = digitpart_tail (c' # cs) in (d # ds, r))
         | None \<Rightarrow> ([], c # c' # cs)))"
| "digitpart_tail [c] = (case digit_val c of Some d \<Rightarrow> ([d], []) | None \<Rightarrow> ([], [c]))"
| "digitpart_tail [] = ([], [])"

definition digitpart :: "string \<Rightarrow> nat list \<times> string" where
  "digitpart s =
     (case s of
        [] \<Rightarrow> ([], [])
      | c # cs \<Rightarrow>
          (case digit_val c of
             None \<Rightarrow> ([], s)
           | Some d \<Rightarrow> (let (ds, r) = digitpart_tail cs in (d # ds, r))))"

definition nat_of_digits :: "nat list \<Rightarrow> nat" where
  "nat_of_digits ds = foldl (\<lambda>a d. 10 * a + d) 0 ds"

definition split_sign :: "string \<Rightarrow> bool \<times> string" where
  "split_sign s =
     (case s of
        [] \<Rightarrow> (False, s)
      | c # cs \<Rightarrow>
          if c = CHR ''-'' then (True, cs)
          else if c = CHR ''+'' then (False, cs)
          else (False, s))"

definition parse_exponent :: "string \<Rightarrow> int option" where
  "parse_exponent s =
     (let (neg, r) = split_sign s; (ds, rest) = digitpart r in
      if ds = [] \<or> rest \<noteq> [] then None
      else Some (if neg then - int (nat_of_digits ds) else int (nat_of_digits ds)))"

definition parse_number :: "string \<Rightarrow> rat option" where
  "parse_number s =
     (let (ip, r1) = digitpart s;
          (fp, r2) = (case r1 of
                        [] \<Rightarrow> ([], r1)
                      | c # cs \<Rightarrow> if c = CHR ''.'' then digitpart cs else ([], r1));
          ex = (case r2 of
                  [] \<Rightarrow> Some 0
                | c # cs \<Rightarrow>
                    if c = CHR ''e'' \<or> c = CHR ''E'' then parse_exponent cs else None)
      in if ip = [] \<and> fp = [] then None
         else (case ex of
                 None \<Rightarrow> None
               | Some e \<Rightarrow>
                   Some (of_nat (nat_of_digits (ip @ fp)) * pow10 (e - int (length fp)))))"

definition float_of_string :: "string \<Rightarrow> error + pyfloat" where
  "float_of_string s =
     (let (neg, body) = split_sign (float_strip s); low = map to_lower body in
      if low = ''inf'' \<or> low = ''infinity'' then Inr (if neg then NegInf else PosInf)
      else if low = ''nan'' then Inr NaN
      else (case parse_number body of
              None \<Rightarrow> Inl (FloatValueError s)
            | Some q \<Rightarrow> Inr (round_signed neg q)))"

text \<open>
  \<^verbatim>\<open>f"{x:.3f}"\<close> and \<^verbatim>\<open>f"{x:.1f}"\<close>: the exact value rounded to \<open>d\<close> decimals, ties to even,
  in fixed-point notation; the sign is kept when the digits round to zero.
\<close>

definition digit_char :: "nat \<Rightarrow> char" where
  "digit_char n = ''0123456789'' ! n"

fun digits_of_nat :: "nat \<Rightarrow> string" where
  "digits_of_nat n =
     (if n < 10 then [digit_char n]
      else digits_of_nat (n div 10) @ [digit_char (n mod 10)])"

declare digits_of_nat.simps [simp del]

definition fixed_string :: "nat \<Rightarrow> nat \<Rightarrow> string" where
  "fixed_string d n =
     (let ds = digits_of_nat n;
          padded = replicate (Suc d - length ds) CHR ''0'' @ ds;
          k = length padded - d
      in take k padded @ (if d = 0 then [] else CHR ''.'' # drop k padded))"

fun fmt_fixed :: "nat \<Rightarrow> pyfloat \<Rightarrow> string" where
  "fmt_fixed d NaN = ''nan''"
| "fmt_fixed d PosInf = ''inf''"
| "fmt_fixed d NegInf = ''-inf''"
| "fmt_fixed d NegZero = CHR ''-'' # fixed_string d 0"
| "fmt_fixed d (Finite q) =
     (if q < 0 then [CHR ''-''] else []) @
     fixed_string d (nat (round_half_even (\<bar>q\<bar> * 10 ^ d)))"

section \<open>The program\<close>

subsection \<open>Data\<close>

record Criterion =
  cid :: string
  name :: string
  weight :: pyfloat

text \<open>
  The rubric as \<^verbatim>\<open>yaml.safe_load\<close> returns it, for a document of the documented shape:
  an optional \<^verbatim>\<open>scale\<close> with optional integers \<^verbatim>\<open>min\<close> and \<^verbatim>\<open>max\<close>, and an optional list
  \<^verbatim>\<open>criteria\<close> of mappings. In an entry, \<open>entry_id\<close> and \<open>entry_name\<close> hold the texts
  \<^verbatim>\<open>str(c["id"])\<close> and \<^verbatim>\<open>str(c["name"])\<close>, and \<open>entry_weight\<close> holds the value of \<^verbatim>\<open>weight\<close>: an
  integer, a float, a truth value, text, or \<open>YNull\<close> for \<^verbatim>\<open>null\<close>. \<open>None\<close> is a key the mapping
  does not have.
\<close>

datatype yscalar = YInt int | YFloat pyfloat | YBool bool | YStr string | YNull

record rubric_entry =
  entry_id :: "string option"
  entry_name :: "string option"
  entry_weight :: "yscalar option"

record rubric =
  scale_min :: "int option"
  scale_max :: "int option"
  criteria :: "rubric_entry list option"

text \<open>
  A row of the scores table, as \<^verbatim>\<open>csv.DictReader\<close> gives it: a column of the header is
  mapped to the text of its cell, or to \<^verbatim>\<open>None\<close> (\<open>Absent\<close>) when the line is too short to
  have that cell.
\<close>

datatype cell = Text string | Absent

type_synonym row = "string \<rightharpoonup> cell"

record result =
  tool :: string
  weighted_score :: string
  normalized_percent :: string
  notes' :: cell

subsection \<open>load_criteria\<close>

definition py_float :: "yscalar \<Rightarrow> error + pyfloat" where
  "py_float v =
     (case v of
        YInt i \<Rightarrow> float_of_int i
      | YFloat f \<Rightarrow> Inr f
      | YBool b \<Rightarrow> Inr (Finite (if b then 1 else 0))
      | YStr s \<Rightarrow> float_of_string s
      | YNull \<Rightarrow> Inl TypeError)"

text \<open>The body of the loop over \<^verbatim>\<open>raw_criteria\<close>: one \<^verbatim>\<open>Criterion\<close> per entry.\<close>

definition make_criterion :: "rubric_entry \<Rightarrow> error + Criterion" where
  "make_criterion c =
     (case entry_id c of
        None \<Rightarrow> Inl (KeyError ''id'')
      | Some i \<Rightarrow>
          (case entry_name c of
             None \<Rightarrow> Inl (KeyError ''name'')
           | Some n \<Rightarrow>
               (case entry_weight c of
                  None \<Rightarrow> Inl (KeyError ''weight'')
                | Some w \<Rightarrow>
                    (case py_float w of
                       Inl e \<Rightarrow> Inl e
                     | Inr f \<Rightarrow> Inr \<lparr>cid = strip i, name = strip n, weight = f\<rparr>))))"

fun build_criteria :: "rubric_entry list \<Rightarrow> error + Criterion list" where
  "build_criteria [] = Inr []"
| "build_criteria (c # cs) =
     (case make_criterion c of
        Inl e \<Rightarrow> Inl e
      | Inr x \<Rightarrow>
          (case build_criteria cs of
             Inl e \<Rightarrow> Inl e
           | Inr xs \<Rightarrow> Inr (x # xs)))"

text \<open>
  \<^verbatim>\<open>sum(c.weight for c in criteria)\<close>. The sum starts at the integer 0, to which the first
  weight is added. Up to CPython 3.11 (\<open>Py311\<close>) the other weights are added from the left.
  From CPython 3.12 (\<open>Py312\<close>) they are added with Neumaier's compensation: the rounding
  errors are collected in \<open>c\<close>, which is added at the end when it is finite and not zero.
  The sum of no weights is the integer 0, here \<open>Finite 0\<close>.
\<close>

datatype py_version = Py311 | Py312

fun neumaier_sum :: "pyfloat \<Rightarrow> pyfloat \<Rightarrow> pyfloat list \<Rightarrow> pyfloat" where
  "neumaier_sum f_result c [] =
     (if \<not> is_zero c \<and> is_finite c then fadd f_result c else f_result)"
| "neumaier_sum f_result c (x # xs) =
     (let t = fadd f_result x in
      neumaier_sum t
        (fadd c (if fle (fabs x) (fabs f_result)
                 then fadd (fsub f_result t) x
                 else fadd (fsub x t) f_result))
        xs)"

definition py_sum :: "py_version \<Rightarrow> pyfloat list \<Rightarrow> pyfloat" where
  "py_sum pv ws =
     (case ws of
        [] \<Rightarrow> Finite 0
      | x # xs \<Rightarrow>
          (case pv of
             Py311 \<Rightarrow> foldl fadd (fadd (Finite 0) x) xs
           | Py312 \<Rightarrow> neumaier_sum (fadd (Finite 0) x) (Finite 0) xs))"

definition weight_tolerance :: pyfloat where
  "weight_tolerance = round_double (1 / 100000)"

definition load_criteria ::
  "py_version \<Rightarrow> rubric \<Rightarrow> error + (Criterion list \<times> int \<times> int)" where
  "load_criteria pv data =
     (let min_score = (case scale_min data of None \<Rightarrow> 1 | Some i \<Rightarrow> i);
          max_score = (case scale_max data of None \<Rightarrow> 5 | Some i \<Rightarrow> i);
          raw_criteria = (case criteria data of None \<Rightarrow> [] | Some cs \<Rightarrow> cs)
      in case build_criteria raw_criteria of
           Inl e \<Rightarrow> Inl e
         | Inr cs \<Rightarrow>
             (let total_weight = py_sum pv (map weight cs) in
              if fgt (fabs (fsub total_weight (Finite 1))) weight_tolerance
              then Inl (ValueError ''Criteria weights must sum to 1.0'')
              else
                (let ids = map cid cs in
                 if length ids \<noteq> card (set ids)
                 then Inl (ValueError ''Criterion IDs must be unique'')
                 else Inr (cs, min_score, max_score))))"

subsection \<open>load_scores\<close>

text \<open>
  The argument is \<^verbatim>\<open>list(reader)\<close>, the data rows of the file. A column is in a row when
  the header has it, whether the row has a cell for it or not.
\<close>

definition load_scores :: "row list \<Rightarrow> error + row list" where
  "load_scores rows =
     (case rows of
        [] \<Rightarrow> Inl (ValueError ''scores.csv is empty'')
      | r # _ \<Rightarrow>
          if r ''tool'' = None
          then Inl (ValueError ''scores.csv must contain a 'tool' column'')
          else Inr rows)"

subsection \<open>parse_score\<close>

text \<open>\<^verbatim>\<open>float(value)\<close> on a cell: \<^verbatim>\<open>float(None)\<close> is a \<^verbatim>\<open>TypeError\<close>.\<close>

definition float_of_cell :: "cell \<Rightarrow> error + pyfloat" where
  "float_of_cell v = (case v of Text s \<Rightarrow> float_of_string s | Absent \<Rightarrow> Inl TypeError)"

definition parse_score :: "cell \<Rightarrow> int \<Rightarrow> int \<Rightarrow> error + pyfloat" where
  "parse_score v min_score max_score =
     (case float_of_cell v of
        Inl e \<Rightarrow> Inl e
      | Inr score \<Rightarrow>
          if \<not> (fle (Finite (of_int min_score)) score \<and> fle score (Finite (of_int max_score)))
          then Inl (ScoreOutOfRange score)
          else Inr score)"

subsection \<open>compute_results\<close>

text \<open>
  The inner loop over the criteria; the accumulator is
  \<open>(weighted_total, raw_total, max_raw)\<close>.
\<close>

fun score_criteria ::
  "Criterion list \<Rightarrow> row \<Rightarrow> int \<Rightarrow> int \<Rightarrow> pyfloat \<times> pyfloat \<times> pyfloat \<Rightarrow>
   error + (pyfloat \<times> pyfloat \<times> pyfloat)" where
  "score_criteria [] r min_score max_score acc = Inr acc"
| "score_criteria (c # cs) r min_score max_score (weighted_total, raw_total, max_raw) =
     (case r (cid c) of
        None \<Rightarrow> Inl (KeyError (cid c))
      | Some v \<Rightarrow>
          (case parse_score v min_score max_score of
             Inl e \<Rightarrow> Inl e
           | Inr score \<Rightarrow>
               (case float_of_int max_score of
                  Inl e \<Rightarrow> Inl e
                | Inr m \<Rightarrow>
                    score_criteria cs r min_score max_score
                      (fadd weighted_total (fmul score (weight c)),
                       fadd raw_total score,
                       fadd max_raw m))))"

text \<open>The body of the loop over the rows: the result appended for one row.\<close>

definition score_row :: "Criterion list \<Rightarrow> row \<Rightarrow> int \<Rightarrow> int \<Rightarrow> error + result" where
  "score_row cs r min_score max_score =
     (case r ''tool'' of
        None \<Rightarrow> Inl (KeyError ''tool'')
      | Some Absent \<Rightarrow> Inl AttributeError
      | Some (Text t) \<Rightarrow>
          (case score_criteria cs r min_score max_score (Finite 0, Finite 0, Finite 0) of
             Inl e \<Rightarrow> Inl e
           | Inr (weighted_total, raw_total, max_raw) \<Rightarrow>
               (case fdiv raw_total max_raw of
                  Inl e \<Rightarrow> Inl e
                | Inr d \<Rightarrow>
                    Inr \<lparr>tool = strip t,
                         weighted_score = fmt_fixed 3 weighted_total,
                         normalized_percent = fmt_fixed 1 (fmul d (Finite 100)),
                         notes' = (case r ''notes'' of None \<Rightarrow> Text [] | Some n \<Rightarrow> n)\<rparr>)))"

fun score_rows :: "Criterion list \<Rightarrow> row list \<Rightarrow> int \<Rightarrow> int \<Rightarrow> error + result list" where
  "score_rows cs [] min_score max_score = Inr []"
| "score_rows cs (r # rs) min_score max_score =
     (case score_row cs r min_score max_score of
        Inl e \<Rightarrow> Inl e
      | Inr x \<Rightarrow>
          (case score_rows cs rs min_score max_score of
             Inl e \<Rightarrow> Inl e
           | Inr xs \<Rightarrow> Inr (x # xs)))"

text \<open>
  \<^verbatim>\<open>results.sort(key=lambda r: float(r["weighted_score"]), reverse=True)\<close>. The keys
  are computed first, for every element. The sort compares keys with \<^verbatim>\<open><\<close> only and is
  stable; with \<^verbatim>\<open>reverse=True\<close> the list is reversed, sorted in ascending order and
  reversed again, which keeps elements with equal keys in their original order. When no
  key is \<^verbatim>\<open>nan\<close> the keys are totally ordered by \<^verbatim>\<open><\<close> and every stable sort returns the same
  list, which is computed here by insertion. A \<^verbatim>\<open>nan\<close> key is below and above nothing: in what
  order a list of two or more elements with such a key is left depends on the steps of the
  interpreter's sorting algorithm, which are not modelled. There \<open>sort_results\<close> is \<open>None\<close>,
  and so are \<open>compute_results\<close> and \<open>main\<close>.
\<close>

definition sort_key :: "result \<Rightarrow> error + pyfloat" where
  "sort_key r = float_of_string (weighted_score r)"

fun keyed :: "result list \<Rightarrow> error + (pyfloat \<times> result) list" where
  "keyed [] = Inr []"
| "keyed (r # rs) =
     (case sort_key r of
        Inl e \<Rightarrow> Inl e
      | Inr k \<Rightarrow>
          (case keyed rs of
             Inl e \<Rightarrow> Inl e
           | Inr ks \<Rightarrow> Inr ((k, r) # ks)))"

fun insert_asc :: "pyfloat \<times> 'a \<Rightarrow> (pyfloat \<times> 'a) list \<Rightarrow> (pyfloat \<times> 'a) list" where
  "insert_asc x [] = [x]"
| "insert_asc x (y # ys) =
     (if flt (fst y) (fst x) then y # insert_asc x ys else x # y # ys)"

definition stable_sort_asc :: "(pyfloat \<times> 'a) list \<Rightarrow> (pyfloat \<times> 'a) list" where
  "stable_sort_asc xs = foldr insert_asc xs []"

definition sort_reverse :: "(pyfloat \<times> 'a) list \<Rightarrow> (pyfloat \<times> 'a) list" where
  "sort_reverse xs = rev (stable_sort_asc (rev xs))"

definition sort_results :: "result list \<Rightarrow> (error + result list) option" where
  "sort_results rs =
     (case keyed rs of
        Inl e \<Rightarrow> Some (Inl e)
      | Inr ks \<Rightarrow>
          if 2 \<le> length ks \<and> list_ex (\<lambda>k. fst k = NaN) ks then None
          else Some (Inr (map snd (sort_reverse ks))))"

definition compute_results ::
  "Criterion list \<Rightarrow> row list \<Rightarrow> int \<Rightarrow> int \<Rightarrow> (error + result list) option" where
  "compute_results cs rows min_score max_score =
     (case score_rows cs rows min_score max_score of
        Inl e \<Rightarrow> Some (Inl e)
      | Inr results \<Rightarrow> sort_results results)"

subsection \<open>The writers and main\<close>

text \<open>
  The part of the outside world the program changes: the files it writes, the
  directories it creates and the lines it prints. The file system is taken to accept
  every directory creation and every write.
\<close>

record world =
  files :: "string \<rightharpoonup> string"
  dirs :: "string set"
  stdout :: "string list"

text \<open>\<^verbatim>\<open>os.path.dirname\<close> for paths with \<^verbatim>\<open>/\<close> as separator.\<close>

definition dirname :: "string \<Rightarrow> string" where
  "dirname p =
     (let hd_part = rev (dropWhile (\<lambda>c. c \<noteq> CHR ''/'') (rev p));
          stripped = rev (dropWhile (\<lambda>c. c = CHR ''/'') (rev hd_part))
      in if stripped = [] then hd_part else stripped)"

text \<open>\<^verbatim>\<open>os.makedirs(d, exist_ok=True)\<close>; the empty path is refused.\<close>

definition makedirs :: "string \<Rightarrow> world \<Rightarrow> error + world" where
  "makedirs d w = (if d = [] then Inl FileNotFoundError else Inr (w\<lparr>dirs := insert d (dirs w)\<rparr>))"

text \<open>
  A line of \<^verbatim>\<open>csv.writer\<close> in its default dialect: a field holding a comma, a double
  quote or a line break is quoted, with the quotes in it doubled.
\<close>

definition csv_field :: "string \<Rightarrow> string" where
  "csv_field s =
     (if list_ex (\<lambda>c. c = CHR '','' \<or> c = CHR 0x22 \<or> c = CHR 0x0D \<or> c = CHR 0x0A) s
      then [CHR 0x22] @ concat (map (\<lambda>c. if c = CHR 0x22 then [c, c] else [c]) s) @ [CHR 0x22]
      else s)"

fun join :: "string \<Rightarrow> string list \<Rightarrow> string" where
  "join sep [] = []"
| "join sep [x] = x"
| "join sep (x # y # ys) = x @ sep @ join sep (y # ys)"

text \<open>
  The notes of a result, which may be \<^verbatim>\<open>None\<close>: the table writer writes \<^verbatim>\<open>None\<close> as the
  empty field, the f-string of the report as the text \<^verbatim>\<open>None\<close>.
\<close>

definition csv_notes :: "cell \<Rightarrow> string" where
  "csv_notes n = (case n of Text s \<Rightarrow> s | Absent \<Rightarrow> [])"

definition str_notes :: "cell \<Rightarrow> string" where
  "str_notes n = (case n of Text s \<Rightarrow> s | Absent \<Rightarrow> ''None'')"

definition csv_line :: "string list \<Rightarrow> string" where
  "csv_line cells = join '','' (map csv_field cells) @ [CHR 0x0D, CHR 0x0A]"

definition write_csv :: "string \<Rightarrow> result list \<Rightarrow> world \<Rightarrow> error + world" where
  "write_csv path results w =
     (case makedirs (dirname path) w of
        Inl e \<Rightarrow> Inl e
      | Inr w1 \<Rightarrow>
          Inr (w1\<lparr>files := (files w1)(path \<mapsto>
                 csv_line [''tool'', ''weighted_score'', ''normalized_percent'', ''notes''] @
                 concat (map (\<lambda>r. csv_line [tool r, weighted_score r, normalized_percent r,
                                           csv_notes (notes' r)])
                           results))\<rparr>))"

fun markdown_rows :: "nat \<Rightarrow> result list \<Rightarrow> string list" where
  "markdown_rows i [] = []"
| "markdown_rows i (r # rs) =
     (''| '' @ digits_of_nat i @ '' | '' @ tool r @ '' | '' @ weighted_score r @ '' | '' @
      normalized_percent r @ '' | '' @ str_notes (notes' r) @ '' |'' @ [CHR 0x0A])
     # markdown_rows (Suc i) rs"

definition write_markdown :: "string \<Rightarrow> result list \<Rightarrow> world \<Rightarrow> error + world" where
  "write_markdown path results w =
     (case makedirs (dirname path) w of
        Inl e \<Rightarrow> Inl e
      | Inr w1 \<Rightarrow>
          Inr (w1\<lparr>files := (files w1)(path \<mapsto>
                 concat
                   ([''# Tool Evaluation Results'' @ [CHR 0x0A, CHR 0x0A],
                     ''| Rank | Tool | Weighted Score | Normalized (0-100) | Notes | '' @ [CHR 0x0A],
                     ''|---:|---|---:|---:|---|'' @ [CHR 0x0A]]
                    @ markdown_rows 1 results))\<rparr>))"

text \<open>
  \<^verbatim>\<open>main\<close>, given the interpreter and what the two input files hold. The outcome is
  paired with the world the run leaves behind.
\<close>

definition main ::
  "py_version \<Rightarrow> rubric \<Rightarrow> row list \<Rightarrow> world \<Rightarrow> ((error + unit) \<times> world) option" where
  "main pv data file_rows w =
     (case load_criteria pv data of
        Inl e \<Rightarrow> Some (Inl e, w)
      | Inr (cs, min_score, max_score) \<Rightarrow>
          (case load_scores file_rows of
             Inl e \<Rightarrow> Some (Inl e, w)
           | Inr rows \<Rightarrow>
               (case compute_results cs rows min_score max_score of
                  None \<Rightarrow> None
                | Some (Inl e) \<Rightarrow> Some (Inl e, w)
                | Some (Inr results) \<Rightarrow>
                    (case write_csv ''output/results.csv'' results w of
                       Inl e \<Rightarrow> Some (Inl e, w)
                     | Inr w1 \<Rightarrow>
                         (case write_markdown ''output/results.md'' results w1 of
                            Inl e \<Rightarrow> Some (Inl e, w1)
                          | Inr w2 \<Rightarrow>
                              Some (Inr (),
                                    w2\<lparr>stdout := stdout w2 @ [''Evaluation complete.'']\<rparr>))))))"

section \<open>Properties\<close>

subsection \<open>Evaluation on concrete inputs\<close>

text \<open>
  The unfolding rules by which the simplifier runs the definitions on a concrete input.
\<close>

lemma floor_rat_numeral:
  "\<lfloor>(numeral a :: rat) / numeral b\<rfloor> = numeral a div numeral b"
  using floor_divide_of_int_eq [of "numeral a" "numeral b", where ?'a = rat] by simp

lemmas float_eval =
  round_double_def round_pos_def flog2_def round_half_even_def Let_def
  log2_up.simps log2_down.simps round_signed_def fmul_def fdiv_def fsub_def fle_def fgt_def
  float_of_int_def floor_rat_numeral

lemmas text_eval =
  float_of_string_def float_strip_def is_float_space_def strip_def is_space_def
  split_sign_def to_lower_def parse_number_def digitpart_def digit_val_def nat_of_digits_def
  parse_exponent_def fixed_string_def digits_of_nat.simps digit_char_def

lemmas program_eval =
  load_criteria_def make_criterion_def py_float_def py_sum_def weight_tolerance_def
  load_scores_def float_of_cell_def parse_score_def score_row_def sort_key_def
  stable_sort_asc_def sort_reverse_def sort_results_def compute_results_def

subsection \<open>The criteria loader\<close>

lemma flt_NaN_right: "flt a NaN = False"
  by (cases a) simp_all

lemma py_sum_NaN: "py_sum pv [NaN] = NaN"
  by (cases pv) (simp_all add: py_sum_def)

text \<open>
  The two ways of summing differ: \<^verbatim>\<open>sum([1e16, 1.0, -1e16])\<close> is \<open>0.0\<close> up to CPython 3.11
  and \<open>1.0\<close> from CPython 3.12.
\<close>

lemma py_sum_versions:
  "py_sum Py311 [Finite (10 ^ 16), Finite 1, Finite (- (10 ^ 16))] = Finite 0 \<and>
   py_sum Py312 [Finite (10 ^ 16), Finite 1, Finite (- (10 ^ 16))] = Finite 1"
  by (simp add: py_sum_def float_eval)

text \<open>
  \<^verbatim>\<open>float\<close> does not drop the separator \<open>0x1F\<close>, which \<^verbatim>\<open>str.strip()\<close> drops.
\<close>

lemma float_of_string_separator:
  "float_of_string (''5'' @ [CHR 0x1F]) = Inl (FloatValueError (''5'' @ [CHR 0x1F])) \<and>
   strip (''5'' @ [CHR 0x1F]) = ''5'' \<and>
   float_of_string (''5'' @ [CHR 0x0A]) = Inr (Finite 5)"
  by (simp add: text_eval float_eval)

lemma dropWhile_hd: "xs \<noteq> [] \<Longrightarrow> \<not> P (hd xs) \<Longrightarrow> dropWhile P xs = xs"
  by (cases xs) simp_all

lemma strip_core:
  assumes "s = [] \<or> (\<not> is_space (hd s) \<and> \<not> is_space (last s))"
  shows "strip s = s"
proof (cases "s = []")
  case True
  then show ?thesis by (simp add: strip_def)
next
  case False
  with assms have h: "\<not> is_space (hd s)" and l: "\<not> is_space (last s)" by auto
  from False h have 1: "dropWhile is_space s = s" by (rule dropWhile_hd)
  from False l have "dropWhile is_space (rev s) = rev s"
    by (intro dropWhile_hd) (simp_all add: hd_rev)
  with 1 show ?thesis by (simp add: strip_def)
qed

lemma strip_pad:
  assumes "\<forall>c\<in>set ws1. is_space c" "\<forall>c\<in>set ws2. is_space c"
  shows "strip (ws1 @ s @ ws2) = strip s"
proof -
  have a: "dropWhile is_space (ws1 @ s @ ws2) = dropWhile is_space (s @ ws2)"
    by (rule dropWhile_append2) (use assms(1) in simp)
  show ?thesis
  proof (cases "\<forall>c\<in>set s. is_space c")
    case True
    have 1: "dropWhile is_space s = []"
      using True by (simp add: dropWhile_eq_Nil_conv)
    have 2: "dropWhile is_space (s @ ws2) = dropWhile is_space ws2"
      by (rule dropWhile_append2) (use True in simp)
    have 3: "dropWhile is_space ws2 = []"
      using assms(2) by (simp add: dropWhile_eq_Nil_conv)
    show ?thesis unfolding strip_def a 2 3 1 by simp
  next
    case False
    then obtain x where "x \<in> set s" "\<not> is_space x" by blast
    then have b: "dropWhile is_space (s @ ws2) = dropWhile is_space s @ ws2"
      by (rule dropWhile_append1)
    have "dropWhile is_space (rev ws2 @ rev (dropWhile is_space s)) =
          dropWhile is_space (rev (dropWhile is_space s))"
      by (rule dropWhile_append2) (use assms(2) in simp)
    then show ?thesis by (simp add: strip_def a b)
  qed
qed

lemma build_criteria_ids:
  "build_criteria es = Inr cs \<Longrightarrow>
   length cs = length es \<and>
   (\<forall>i<length es. \<exists>x. entry_id (es ! i) = Some x \<and> cid (cs ! i) = strip x)"
proof (induction es arbitrary: cs)
  case Nil
  then show ?case by simp
next
  case (Cons e es)
  from Cons.prems obtain c cs' where mc: "make_criterion e = Inr c"
    and bc: "build_criteria es = Inr cs'" and cs: "cs = c # cs'"
    by (auto split: sum.splits)
  from mc obtain x where "entry_id e = Some x" "cid c = strip x"
    by (auto simp: make_criterion_def split: option.splits sum.splits)
  with Cons.IH [OF bc] cs show ?case
    by (auto simp: nth_Cons split: nat.splits)
qed

lemma build_criteria_cid:
  assumes "build_criteria es = Inr cs" "i < length es" "entry_id (es ! i) = Some a"
  shows "cid (cs ! i) = strip a"
  using build_criteria_ids [OF assms(1)] assms(2,3) by fastforce

lemma dup_ids_not_distinct:
  assumes "build_criteria es = Inr cs" "i < length es" "j < length es" "i \<noteq> j"
    "entry_id (es ! i) = Some a" "entry_id (es ! j) = Some b" "strip a = strip b"
  shows "\<not> distinct (map cid cs)"
proof -
  from build_criteria_ids [OF assms(1)] have len: "length cs = length es" by simp
  from assms(1,2,5) have "cid (cs ! i) = strip a" by (rule build_criteria_cid)
  moreover from assms(1,3,6) have "cid (cs ! j) = strip b" by (rule build_criteria_cid)
  ultimately have "map cid cs ! i = map cid cs ! j"
    using len assms(2,3,7) by simp
  then show ?thesis
    using assms(2-4) len by (auto simp: distinct_conv_nth)
qed

lemma load_criteria_dup:
  assumes "criteria data = Some es" "i < length es" "j < length es" "i \<noteq> j"
    "entry_id (es ! i) = Some a" "entry_id (es ! j) = Some b" "strip a = strip b"
  shows "load_criteria pv data =
    (case build_criteria es of
       Inl e \<Rightarrow> Inl e
     | Inr cs \<Rightarrow>
         if fgt (fabs (fsub (py_sum pv (map weight cs)) (Finite 1))) weight_tolerance
         then Inl (ValueError ''Criteria weights must sum to 1.0'')
         else Inl (ValueError ''Criterion IDs must be unique''))"
proof (cases "build_criteria es")
  case (Inl e)
  then show ?thesis by (simp add: load_criteria_def assms(1))
next
  case (Inr cs)
  from dup_ids_not_distinct [OF Inr assms(2-7)]
  have "\<not> distinct (map cid cs)" .
  then have "length (map cid cs) \<noteq> card (set (map cid cs))"
    using card_distinct [of "map cid cs"] by auto
  then show ?thesis by (simp add: load_criteria_def assms(1) Inr Let_def)
qed

text \<open>
  Claim C1. Loading succeeds only when the sum of the weights is within \<open>1e-5\<close> of \<open>1.0\<close>.
  The check of the loader is \<^verbatim>\<open>abs(total_weight - 1.0) > 1e-5\<close>, which is false when the sum
  is \<^verbatim>\<open>nan\<close>: a rubric whose only weight is \<^verbatim>\<open>.nan\<close> is loaded, on every interpreter,
  although its weights do not sum to a number within the tolerance.
\<close>

theorem load_criteria_accepts_nan_weight:
  "load_criteria pv
     \<lparr>scale_min = None, scale_max = None,
      criteria = Some [\<lparr>entry_id = Some ''a'', entry_name = Some ''A'',
                        entry_weight = Some (YFloat NaN)\<rparr>]\<rparr> =
   Inr ([\<lparr>cid = ''a'', name = ''A'', weight = NaN\<rparr>], 1, 5) \<and>
   \<not> fle (fabs (fsub (py_sum pv [NaN]) (Finite 1))) weight_tolerance"
  by (simp add: load_criteria_def make_criterion_def py_float_def py_sum_NaN text_eval
      fsub_def fgt_def fle_def flt_NaN_right)

text \<open>
  Claim C6, as amended. A rubric in which two entries have the same id after trimming
  is never loaded. The weights are checked first: the error is
  \<^verbatim>\<open>Criterion IDs must be unique\<close> when the weights pass their check, and
  \<^verbatim>\<open>Criteria weights must sum to 1.0\<close> when they do not (and the error of the first entry
  that cannot be read, when there is one).
\<close>

theorem duplicate_ids_rejected:
  assumes "criteria data = Some es" "i < length es" "j < length es" "i \<noteq> j"
    "entry_id (es ! i) = Some a" "entry_id (es ! j) = Some b" "strip a = strip b"
  shows "load_criteria pv data =
    (case build_criteria es of
       Inl e \<Rightarrow> Inl e
     | Inr cs \<Rightarrow>
         if fgt (fabs (fsub (py_sum pv (map weight cs)) (Finite 1))) weight_tolerance
         then Inl (ValueError ''Criteria weights must sum to 1.0'')
         else Inl (ValueError ''Criterion IDs must be unique''))"
  using assms by (rule load_criteria_dup)

theorem duplicate_ids_rejected_witness:
  "\<forall>pv. load_criteria pv
     \<lparr>scale_min = None, scale_max = None,
      criteria = Some [\<lparr>entry_id = Some ''accuracy'', entry_name = Some ''A'',
                        entry_weight = Some (YFloat (Finite (1 / 2)))\<rparr>,
                       \<lparr>entry_id = Some ''accuracy'', entry_name = Some ''B'',
                        entry_weight = Some (YFloat (Finite (1 / 2)))\<rparr>]\<rparr> =
   Inl (ValueError ''Criterion IDs must be unique'')"
proof
  fix pv
  show "load_criteria pv
     \<lparr>scale_min = None, scale_max = None,
      criteria = Some [\<lparr>entry_id = Some ''accuracy'', entry_name = Some ''A'',
                        entry_weight = Some (YFloat (Finite (1 / 2)))\<rparr>,
                       \<lparr>entry_id = Some ''accuracy'', entry_name = Some ''B'',
                        entry_weight = Some (YFloat (Finite (1 / 2)))\<rparr>]\<rparr> =
   Inl (ValueError ''Criterion IDs must be unique'')"
    using duplicate_ids_rejected
      [where i = 0 and j = "Suc 0" and a = "''accuracy''" and b = "''accuracy''" and pv = pv
         and data = "\<lparr>scale_min = None, scale_max = None,
      criteria = Some [\<lparr>entry_id = Some ''accuracy'', entry_name = Some ''A'',
                        entry_weight = Some (YFloat (Finite (1 / 2)))\<rparr>,
                       \<lparr>entry_id = Some ''accuracy'', entry_name = Some ''B'',
                        entry_weight = Some (YFloat (Finite (1 / 2)))\<rparr>]\<rparr>"
         and es = "[\<lparr>entry_id = Some ''accuracy'', entry_name = Some ''A'',
                        entry_weight = Some (YFloat (Finite (1 / 2)))\<rparr>,
                       \<lparr>entry_id = Some ''accuracy'', entry_name = Some ''B'',
                        entry_weight = Some (YFloat (Finite (1 / 2)))\<rparr>]"]
    by (cases pv) (simp_all add: program_eval text_eval float_eval)
qed

text \<open>
  Claim C6, as worded: two entries with the id \<^verbatim>\<open>accuracy\<close> and weights that sum to
  \<open>0.75\<close> are refused for their weights, not for their ids.
\<close>

theorem duplicate_ids_weights_error_first:
  "\<forall>pv. load_criteria pv
     \<lparr>scale_min = None, scale_max = None,
      criteria = Some [\<lparr>entry_id = Some ''accuracy'', entry_name = Some ''A'',
                        entry_weight = Some (YFloat (Finite (1 / 2)))\<rparr>,
                       \<lparr>entry_id = Some ''accuracy'', entry_name = Some ''B'',
                        entry_weight = Some (YFloat (Finite (1 / 4)))\<rparr>]\<rparr> =
   Inl (ValueError ''Criteria weights must sum to 1.0'')"
proof
  fix pv
  show "load_criteria pv
     \<lparr>scale_min = None, scale_max = None,
      criteria = Some [\<lparr>entry_id = Some ''accuracy'', entry_name = Some ''A'',
                        entry_weight = Some (YFloat (Finite (1 / 2)))\<rparr>,
                       \<lparr>entry_id = Some ''accuracy'', entry_name = Some ''B'',
                        entry_weight = Some (YFloat (Finite (1 / 4)))\<rparr>]\<rparr> =
   Inl (ValueError ''Criteria weights must sum to 1.0'')"
    by (cases pv) (simp_all add: program_eval text_eval float_eval)
qed

text \<open>
  Claim C10. The ids are trimmed before they are compared. When the ids of two entries
  are the same text \<open>s\<close>, which neither begins nor ends with whitespace, each with any
  whitespace before and after it, both criteria built from them have the id \<open>s\<close> and the
  rubric is refused: for its repeated id when the weights pass their check, for its
  weights otherwise (and for the first entry that cannot be read, when there is one).
\<close>

theorem ids_trimmed_before_uniqueness:
  assumes "criteria data = Some es" "i < length es" "j < length es" "i \<noteq> j"
    "entry_id (es ! i) = Some (la @ s @ ta)" "entry_id (es ! j) = Some (lb @ s @ tb)"
    "\<forall>c\<in>set (la @ ta @ lb @ tb). is_space c"
    "s = [] \<or> (\<not> is_space (hd s) \<and> \<not> is_space (last s))"
  shows "load_criteria pv data =
    (case build_criteria es of
       Inl e \<Rightarrow> Inl e
     | Inr cs \<Rightarrow>
         if fgt (fabs (fsub (py_sum pv (map weight cs)) (Finite 1))) weight_tolerance
         then Inl (ValueError ''Criteria weights must sum to 1.0'')
         else Inl (ValueError ''Criterion IDs must be unique'')) \<and>
    (case build_criteria es of
       Inl e \<Rightarrow> True
     | Inr cs \<Rightarrow> cid (cs ! i) = s \<and> cid (cs ! j) = s)"
proof -
  have core: "strip s = s" using assms(8) by (rule strip_core)
  have a: "strip (la @ s @ ta) = s"
    using assms(7) by (simp add: strip_pad core)
  have b: "strip (lb @ s @ tb) = s"
    using assms(7) by (simp add: strip_pad core)
  have "load_criteria pv data =
    (case build_criteria es of
       Inl e \<Rightarrow> Inl e
     | Inr cs \<Rightarrow>
         if fgt (fabs (fsub (py_sum pv (map weight cs)) (Finite 1))) weight_tolerance
         then Inl (ValueError ''Criteria weights must sum to 1.0'')
         else Inl (ValueError ''Criterion IDs must be unique''))"
    using assms(1-6) by (rule load_criteria_dup) (simp add: a b)
  moreover have "case build_criteria es of
       Inl e \<Rightarrow> True
     | Inr cs \<Rightarrow> cid (cs ! i) = s \<and> cid (cs ! j) = s"
  proof (cases "build_criteria es")
    case (Inl e)
    then show ?thesis by simp
  next
    case (Inr cs)
    from build_criteria_cid [OF Inr assms(2,5)] build_criteria_cid [OF Inr assms(3,6)]
    show ?thesis by (simp add: Inr a b)
  qed
  ultimately show ?thesis by simp
qed

theorem ids_trimmed_before_uniqueness_witness:
  "\<forall>pv. load_criteria pv
     \<lparr>scale_min = None, scale_max = None,
      criteria = Some [\<lparr>entry_id = Some ''accuracy'', entry_name = Some ''A'',
                        entry_weight = Some (YFloat (Finite (1 / 2)))\<rparr>,
                       \<lparr>entry_id = Some '' accuracy '', entry_name = Some ''B'',
                        entry_weight = Some (YFloat (Finite (1 / 2)))\<rparr>]\<rparr> =
   Inl (ValueError ''Criterion IDs must be unique'')"
proof
  fix pv
  show "load_criteria pv
     \<lparr>scale_min = None, scale_max = None,
      criteria = Some [\<lparr>entry_id = Some ''accuracy'', entry_name = Some ''A'',
                        entry_weight = Some (YFloat (Finite (1 / 2)))\<rparr>,
                       \<lparr>entry_id = Some '' accuracy '', entry_name = Some ''B'',
                        entry_weight = Some (YFloat (Finite (1 / 2)))\<rparr>]\<rparr> =
   Inl (ValueError ''Criterion IDs must be unique'')"
    using ids_trimmed_before_uniqueness
      [where i = 0 and j = "Suc 0" and s = "''accuracy''" and pv = pv
         and la = "[]" and ta = "[]" and lb = "'' ''" and tb = "'' ''"
         and data = "\<lparr>scale_min = None, scale_max = None,
      criteria = Some [\<lparr>entry_id = Some ''accuracy'', entry_name = Some ''A'',
                        entry_weight = Some (YFloat (Finite (1 / 2)))\<rparr>,
                       \<lparr>entry_id = Some '' accuracy '', entry_name = Some ''B'',
                        entry_weight = Some (YFloat (Finite (1 / 2)))\<rparr>]\<rparr>"
         and es = "[\<lparr>entry_id = Some ''accuracy'', entry_name = Some ''A'',
                        entry_weight = Some (YFloat (Finite (1 / 2)))\<rparr>,
                       \<lparr>entry_id = Some '' accuracy '', entry_name = Some ''B'',
                        entry_weight = Some (YFloat (Finite (1 / 2)))\<rparr>]"]
    by (cases pv) (simp_all add: program_eval text_eval float_eval)
qed

subsection \<open>The score loader\<close>

text \<open>
  Claim C7. A scores source with no data row is refused and no rows are returned. The
  message of the error is \<^verbatim>\<open>scores.csv is empty\<close>.
\<close>

theorem load_scores_empty:
  "load_scores [] = Inl (ValueError ''scores.csv is empty'')"
  by (simp add: load_scores_def)

text \<open>
  Claim C7, as worded: the message is not \<^verbatim>\<open>scores source is empty\<close>.
\<close>

theorem load_scores_empty_other_message:
  "load_scores [] \<noteq> Inl (ValueError ''scores source is empty'')"
  by (simp add: load_scores_def)

subsection \<open>Scores\<close>

lemma fle_chain_int:
  "fle (Finite (of_int a)) s \<Longrightarrow> fle s (Finite (of_int b)) \<Longrightarrow> a \<le> b"
  by (cases s) (auto simp: fle_def)

text \<open>
  Claim C2, as amended. Let the text of a score be read as the number \<open>s\<close>. When
  \<open>min_score \<le> max_score\<close> and \<open>s\<close> equals \<open>min_score\<close> or \<open>max_score\<close>, the score is accepted.
  When \<open>s\<close> equals \<open>min_score - 1\<close> or \<open>max_score + 1\<close>, it is refused as out of range. When
  \<open>max_score < min_score\<close>, it is refused as out of range whatever it is.
\<close>

theorem parse_score_boundaries:
  assumes "float_of_string v = Inr s"
  shows "(min_score \<le> max_score \<and>
          (feq s (Finite (of_int min_score)) \<or> feq s (Finite (of_int max_score))) \<longrightarrow>
            parse_score (Text v) min_score max_score = Inr s) \<and>
         (feq s (Finite (of_int (min_score - 1))) \<or> feq s (Finite (of_int (max_score + 1))) \<longrightarrow>
            parse_score (Text v) min_score max_score = Inl (ScoreOutOfRange s)) \<and>
         (max_score < min_score \<longrightarrow>
            parse_score (Text v) min_score max_score = Inl (ScoreOutOfRange s))"
proof (intro conjI impI)
  assume "min_score \<le> max_score \<and>
    (feq s (Finite (of_int min_score)) \<or> feq s (Finite (of_int max_score)))"
  then show "parse_score (Text v) min_score max_score = Inr s"
    using assms by (cases s) (auto simp: parse_score_def float_of_cell_def fle_def)
next
  assume "feq s (Finite (of_int (min_score - 1))) \<or> feq s (Finite (of_int (max_score + 1)))"
  then show "parse_score (Text v) min_score max_score = Inl (ScoreOutOfRange s)"
    using assms by (cases s) (auto simp: parse_score_def float_of_cell_def fle_def)
next
  assume "max_score < min_score"
  then have "\<not> (fle (Finite (of_int min_score)) s \<and> fle s (Finite (of_int max_score)))"
    using fle_chain_int [of min_score s max_score] by auto
  then show "parse_score (Text v) min_score max_score = Inl (ScoreOutOfRange s)"
    using assms by (simp add: parse_score_def float_of_cell_def)
qed

theorem parse_score_boundaries_witness:
  "parse_score (Text ''5'') 1 5 = Inr (Finite 5) \<and>
   parse_score (Text ''1.0'') 1 5 = Inr (Finite 1) \<and>
   parse_score (Text ''-0'') 0 5 = Inr NegZero \<and>
   parse_score (Text ''6'') 1 5 = Inl (ScoreOutOfRange (Finite 6)) \<and>
   parse_score (Text ''0'') 1 5 = Inl (ScoreOutOfRange (Finite 0)) \<and>
   parse_score (Text ''3'') 5 1 = Inl (ScoreOutOfRange (Finite 3))"
  using parse_score_boundaries [of "''5''" "Finite 5" 1 5]
    parse_score_boundaries [of "''1.0''" "Finite 1" 1 5]
    parse_score_boundaries [of "''-0''" NegZero 0 5]
    parse_score_boundaries [of "''6''" "Finite 6" 1 5]
    parse_score_boundaries [of "''0''" "Finite 0" 1 5]
    parse_score_boundaries [of "''3''" "Finite 3" 5 1]
  by (simp add: text_eval float_eval)

text \<open>
  Claim C2, as worded: the loader accepts a scale whose \<open>min\<close> is above its \<open>max\<close>, and then
  a score equal to \<open>min_score\<close> is refused.
\<close>

theorem parse_score_inverted_scale:
  "(\<forall>pv. load_criteria pv
     \<lparr>scale_min = Some 5, scale_max = Some 1,
      criteria = Some [\<lparr>entry_id = Some ''a'', entry_name = Some ''A'',
                        entry_weight = Some (YFloat (Finite 1))\<rparr>]\<rparr> =
     Inr ([\<lparr>cid = ''a'', name = ''A'', weight = Finite 1\<rparr>], 5, 1)) \<and>
   float_of_string ''5'' = Inr (Finite 5) \<and>
   parse_score (Text ''5'') 5 1 = Inl (ScoreOutOfRange (Finite 5))"
proof (intro conjI allI)
  fix pv
  show "load_criteria pv
     \<lparr>scale_min = Some 5, scale_max = Some 1,
      criteria = Some [\<lparr>entry_id = Some ''a'', entry_name = Some ''A'',
                        entry_weight = Some (YFloat (Finite 1))\<rparr>]\<rparr> =
     Inr ([\<lparr>cid = ''a'', name = ''A'', weight = Finite 1\<rparr>], 5, 1)"
    by (cases pv) (simp_all add: program_eval text_eval float_eval)
next
  show "float_of_string ''5'' = Inr (Finite 5)"
    by (simp add: text_eval float_eval)
next
  show "parse_score (Text ''5'') 5 1 = Inl (ScoreOutOfRange (Finite 5))"
    by (simp add: program_eval text_eval float_eval)
qed

subsection \<open>The scorer\<close>

text \<open>
  Claim C3. For the criteria \<open>a\<close> with weight \<open>0.6\<close> and \<open>b\<close> with weight \<open>0.4\<close>, the scale
  \<open>(1, 5)\<close> and the one row \<^verbatim>\<open>tool=X, a=5, b=1\<close>, the scorer returns one result, with the
  weighted score \<^verbatim>\<open>3.400\<close> and the normalized percent \<^verbatim>\<open>60.0\<close>.
\<close>

theorem round_trip_example:
  "compute_results
     [\<lparr>cid = ''a'', name = na, weight = round_double (6 / 10)\<rparr>,
      \<lparr>cid = ''b'', name = nb, weight = round_double (4 / 10)\<rparr>]
     [[''tool'' \<mapsto> Text ''X'', ''a'' \<mapsto> Text ''5'', ''b'' \<mapsto> Text ''1'']] 1 5 =
   Some (Inr [\<lparr>tool = ''X'', weighted_score = ''3.400'', normalized_percent = ''60.0'',
               notes' = Text ''''\<rparr>])"
  by (simp add: program_eval text_eval float_eval)

subsection \<open>Rounding\<close>


lemma pow2_pos: "0 < pow2 k"
  by simp


lemma log2_up_spec:
  "1 \<le> q \<Longrightarrow> 0 \<le> log2_up q \<and> pow2 (log2_up q) \<le> q \<and> q < pow2 (log2_up q + 1)"
proof (induction q rule: log2_up.induct)
  case (1 q)
  show ?case
  proof (cases "q < 2")
    case True
    with "1.prems" show ?thesis by (simp add: log2_up.simps)
  next
    case False
    then have "1 \<le> q / 2" by simp
    with "1.IH" [OF False] have ih: "0 \<le> log2_up (q / 2)"
      "pow2 (log2_up (q / 2)) \<le> q / 2" "q / 2 < pow2 (log2_up (q / 2) + 1)"
      by auto
    have e: "log2_up q = log2_up (q / 2) + 1"
      using False by (subst log2_up.simps) simp
    have s: "pow2 (k + 1) = 2 * pow2 k" if "0 \<le> k" for k
      using that by (simp add: nat_add_distrib)
    from ih(1) have "pow2 (log2_up (q / 2) + 1) = 2 * pow2 (log2_up (q / 2))"
      by (rule s)
    moreover from ih(1) have "pow2 (log2_up (q / 2) + 1 + 1) = 2 * pow2 (log2_up (q / 2) + 1)"
      by (intro s) simp
    ultimately show ?thesis
      unfolding e using ih by (simp del: pow2.simps)
  qed
qed


lemma round_half_even_of_int: "round_half_even (of_int m) = m"
  by (simp add: round_half_even_def)


text \<open>A whole number up to \<open>2 ^ 53\<close> is a double.\<close>

lemma round_pos_int:
  assumes "1 \<le> n" "n \<le> 2 ^ 53"
  shows "round_pos (of_int n) = Finite (of_int n)"
proof -
  define q :: rat where "q = of_int n"
  define e where "e = log2_up q"
  define P where "P = pow2 (e - 52)"
  have q1: "1 \<le> q" using assms(1) by (simp add: q_def)
  have q53: "q \<le> 2 ^ 53"
  proof -
    have "(of_int n :: rat) \<le> of_int (2 ^ 53)" using assms(2) by (simp only: of_int_le_iff)
    then show ?thesis by (simp add: q_def)
  qed
  from log2_up_spec [OF q1] have e0: "0 \<le> e" and lo: "pow2 e \<le> q"
    by (simp_all add: e_def del: pow2.simps)
  have P: "0 < P" unfolding P_def by (rule pow2_pos)
  have p: "max (flog2 q - 52) (- 1074) = e - 52"
    using q1 e0 by (simp add: flog2_def e_def)
  from lo q53 e0 have "(2::rat) ^ nat e \<le> 2 ^ 53" by simp
  then have "nat e \<le> 53"
    using power_le_imp_le_exp [of "2::rat" "nat e" 53] by simp
  then have e53: "e \<le> 53" by simp
  have "\<exists>m. q / P = of_int m"
  proof (cases "e \<le> 52")
    case True
    then have "P = 1 / 2 ^ nat (52 - e)"
      unfolding P_def by (cases "e = 52") simp_all
    then have "q / P = of_int (n * 2 ^ nat (52 - e))" by (simp add: q_def)
    then show ?thesis ..
  next
    case False
    with e53 have e: "e = 53" by simp
    with lo q53 have "q = 2 ^ 53" by simp
    moreover from e have "P = 2" by (simp add: P_def)
    ultimately have "q / P = of_int (2 ^ 52)" by simp
    then show ?thesis ..
  qed
  then obtain m where m: "q / P = of_int m" ..
  with P have r: "of_int m * P = q" by (simp add: field_simps)
  have big: "\<not> pow2 1024 \<le> q"
  proof -
    have "(2::rat) ^ 53 < 2 ^ 1024" by (rule power_strict_increasing) simp_all
    with q53 show ?thesis by simp
  qed
  have "round_pos q =
    (if pow2 1024 \<le> of_int (round_half_even (q / P)) * P then PosInf
     else Finite (of_int (round_half_even (q / P)) * P))"
    unfolding round_pos_def Let_def p P_def ..
  then have "round_pos q = Finite q"
    using big by (simp add: m round_half_even_of_int r del: pow2.simps)
  then show ?thesis by (simp add: q_def)
qed

lemma round_double_int:
  assumes "\<bar>n\<bar> \<le> 2 ^ 53"
  shows "round_double (of_int n) = Finite (of_int n)"
proof -
  consider "n = 0" | "1 \<le> n" | "1 \<le> - n" by linarith
  then show ?thesis
  proof cases
    case 1
    then show ?thesis by (simp add: round_double_def)
  next
    case 2
    with assms have "round_pos (of_int n) = Finite (of_int n)"
      by (intro round_pos_int) simp_all
    with 2 show ?thesis by (simp add: round_double_def)
  next
    case 3
    with assms have "round_pos (of_int (- n)) = Finite (of_int (- n))"
      by (intro round_pos_int) simp_all
    with 3 show ?thesis by (simp add: round_double_def)
  qed
qed

lemma fadd_int:
  "\<bar>a + b\<bar> \<le> 2 ^ 53 \<Longrightarrow>
   fadd (Finite (of_int a)) (Finite (of_int b)) = Finite (of_int (a + b))"
  using round_double_int [of "a + b"] by simp

subsection \<open>The normalized percent\<close>

lemma load_criteria_nonempty:
  assumes "load_criteria pv data = Inr (cs, mn, mx)"
  shows "cs \<noteq> []"
proof
  assume "cs = []"
  have "fgt (fabs (fsub (py_sum pv (map weight [])) (Finite 1))) weight_tolerance"
    by (simp add: py_sum_def weight_tolerance_def float_eval)
  with assms \<open>cs = []\<close> show False
    by (auto simp: load_criteria_def Let_def split: sum.splits if_splits)
qed

















lemma score_criteria_all_max:
  assumes "\<forall>c\<in>set cs. \<exists>v. r (cid c) = Some (Text v) \<and>
      float_of_string v = Inr (Finite (of_int mx))"
    and "mn \<le> mx" and "\<bar>a\<bar> + int (length cs) * \<bar>mx\<bar> \<le> 2 ^ 53"
  shows "\<exists>wt'. score_criteria cs r mn mx (wt, Finite (of_int a), Finite (of_int a)) =
      Inr (wt', Finite (of_int (a + int (length cs) * mx)),
           Finite (of_int (a + int (length cs) * mx)))"
  using assms
proof (induction cs arbitrary: wt a)
  case Nil
  then show ?case by simp
next
  case (Cons c cs)
  from Cons.prems(1) obtain v where v: "r (cid c) = Some (Text v)"
    "float_of_string v = Inr (Finite (of_int mx))" by auto
  from v(2) Cons.prems(2) have ps: "parse_score (Text v) mn mx = Inr (Finite (of_int mx))"
    by (simp add: parse_score_def float_of_cell_def fle_def)
  define L where "L = int (length cs) * \<bar>mx\<bar>"
  have L0: "0 \<le> L" by (simp add: L_def)
  have tot: "\<bar>a\<bar> + (\<bar>mx\<bar> + L) \<le> 2 ^ 53"
    using Cons.prems(3) by (simp add: L_def algebra_simps)
  have b1: "\<bar>mx\<bar> \<le> 2 ^ 53" using L0 tot by linarith
  have "\<bar>a + mx\<bar> + L \<le> 2 ^ 53" using tot by linarith
  then have b2: "\<bar>a + mx\<bar> + int (length cs) * \<bar>mx\<bar> \<le> 2 ^ 53"
    by (simp add: L_def)
  have b3: "\<bar>a + mx\<bar> \<le> 2 ^ 53" using L0 tot by linarith
  have m: "float_of_int mx = Inr (Finite (of_int mx))"
    using round_double_int [OF b1] by (simp add: float_of_int_def)
  have s: "fadd (Finite (of_int a)) (Finite (of_int mx)) = Finite (of_int (a + mx))"
    using b3 by (rule fadd_int)
  from Cons.prems(1) have rest: "\<forall>c\<in>set cs. \<exists>v. r (cid c) = Some (Text v) \<and>
      float_of_string v = Inr (Finite (of_int mx))" by simp
  have eq: "a + mx + int (length cs) * mx = a + int (length (c # cs)) * mx"
    by (simp add: algebra_simps)
  have step: "score_criteria (c # cs) r mn mx (wt, Finite (of_int a), Finite (of_int a)) =
      score_criteria cs r mn mx
        (fadd wt (fmul (Finite (of_int mx)) (weight c)),
         fadd (Finite (of_int a)) (Finite (of_int mx)),
         fadd (Finite (of_int a)) (Finite (of_int mx)))"
    by (simp add: v(1) ps m)
  from Cons.IH [OF rest Cons.prems(2) b2, of "fadd wt (fmul (Finite (of_int mx)) (weight c))",
      unfolded eq]
  obtain wt' where w: "score_criteria cs r mn mx
      (fadd wt (fmul (Finite (of_int mx)) (weight c)), Finite (of_int (a + mx)),
       Finite (of_int (a + mx))) =
      Inr (wt', Finite (of_int (a + int (length (c # cs)) * mx)),
           Finite (of_int (a + int (length (c # cs)) * mx)))" ..
  have "score_criteria (c # cs) r mn mx (wt, Finite (of_int a), Finite (of_int a)) =
      Inr (wt', Finite (of_int (a + int (length (c # cs)) * mx)),
           Finite (of_int (a + int (length (c # cs)) * mx)))"
    by (simp only: step s w)
  then show ?case ..
qed

text \<open>
  Claim C4, as amended. For a criteria list the loader has returned and a row whose score
  on every criterion is read as \<open>max_score\<close>, with \<open>min_score \<le> max_score\<close>,
  \<open>max_score\<close> not 0 and the sum of the maxima not above \<open>2 ^ 53\<close>: the row is scored and its
  normalized percent is \<^verbatim>\<open>100.0\<close>. Nothing is said of the weighted total: it is the sum of
  the rounded products \<open>max_score * weight\<close>, and the weights sum to 1 only within \<open>1e-5\<close>.
\<close>

theorem all_max_normalized_percent:
  assumes "load_criteria pv data = Inr (cs, mn, mx)"
    and "mn \<le> mx" and "mx \<noteq> 0" and "int (length cs) * \<bar>mx\<bar> \<le> 2 ^ 53"
    and "r ''tool'' = Some (Text t)"
    and "\<forall>c\<in>set cs. \<exists>v. r (cid c) = Some (Text v) \<and>
      float_of_string v = Inr (Finite (of_int mx))"
  shows "\<exists>res. score_row cs r mn mx = Inr res \<and> normalized_percent res = ''100.0''"
proof -
  from assms(1) have ne: "cs \<noteq> []" by (rule load_criteria_nonempty)
  define N where "N = int (length cs) * mx"
  from ne assms(3) have N: "N \<noteq> 0" by (simp add: N_def)
  from score_criteria_all_max [OF assms(6,2), of 0 "Finite 0"] assms(4)
  obtain wt' where sc: "score_criteria cs r mn mx (Finite 0, Finite 0, Finite 0) =
      Inr (wt', Finite (of_int N), Finite (of_int N))"
    by (auto simp: N_def)
  have one: "round_double 1 = Finite 1" by (simp add: float_eval)
  have d: "fdiv (Finite (of_int N)) (Finite (of_int N)) = Inr (Finite 1)"
    using N by (simp add: fdiv_def round_signed_def one)
  have row: "score_row cs r mn mx =
      Inr \<lparr>tool = strip t, weighted_score = fmt_fixed 3 wt',
           normalized_percent = fmt_fixed 1 (fmul (Finite 1) (Finite 100)),
           notes' = (case r ''notes'' of None \<Rightarrow> Text [] | Some n \<Rightarrow> n)\<rparr>"
    by (simp add: score_row_def assms(5) sc d)
  show ?thesis
    unfolding row by (simp add: text_eval float_eval)
qed

theorem all_max_normalized_percent_witness:
  "\<exists>res. score_row
       [\<lparr>cid = ''a'', name = ''A'', weight = round_double (6 / 10)\<rparr>,
        \<lparr>cid = ''b'', name = ''B'', weight = round_double (4 / 10)\<rparr>]
       [''tool'' \<mapsto> Text ''X'', ''a'' \<mapsto> Text ''5'', ''b'' \<mapsto> Text ''5.0''] 1 5 = Inr res \<and>
     normalized_percent res = ''100.0''"
  by (rule all_max_normalized_percent
        [where pv = Py312 and data = "\<lparr>scale_min = None, scale_max = None,
           criteria = Some [\<lparr>entry_id = Some ''a'', entry_name = Some ''A'',
                             entry_weight = Some (YFloat (round_double (6 / 10)))\<rparr>,
                            \<lparr>entry_id = Some ''b'', entry_name = Some ''B'',
                             entry_weight = Some (YFloat (round_double (4 / 10)))\<rparr>]\<rparr>"
           and t = "''X''"])
     (simp_all add: program_eval text_eval float_eval)

text \<open>
  Claim C4, as worded: the one weight \<open>1.000005\<close> passes the check of the loader; with
  the scale \<open>(1, 1000)\<close> a row with the score 1000 has the weighted score \<^verbatim>\<open>1000.005\<close>, which
  is not \<open>max_score\<close>.
\<close>

theorem all_max_weighted_total_not_max:
  "(\<forall>pv. load_criteria pv
     \<lparr>scale_min = Some 1, scale_max = Some 1000,
      criteria = Some [\<lparr>entry_id = Some ''a'', entry_name = Some ''A'',
                        entry_weight = Some (YStr ''1.000005'')\<rparr>]\<rparr> =
     Inr ([\<lparr>cid = ''a'', name = ''A'',
            weight = Finite (4503622145368633 / 4503599627370496)\<rparr>], 1, 1000)) \<and>
   compute_results
     [\<lparr>cid = ''a'', name = ''A'', weight = Finite (4503622145368633 / 4503599627370496)\<rparr>]
     [[''tool'' \<mapsto> Text ''X'', ''a'' \<mapsto> Text ''1000'']] 1 1000 =
   Some (Inr [\<lparr>tool = ''X'', weighted_score = ''1000.005'', normalized_percent = ''100.0'',
               notes' = Text []\<rparr>])"
proof (intro conjI allI)
  fix pv
  show "load_criteria pv
     \<lparr>scale_min = Some 1, scale_max = Some 1000,
      criteria = Some [\<lparr>entry_id = Some ''a'', entry_name = Some ''A'',
                        entry_weight = Some (YStr ''1.000005'')\<rparr>]\<rparr> =
     Inr ([\<lparr>cid = ''a'', name = ''A'',
            weight = Finite (4503622145368633 / 4503599627370496)\<rparr>], 1, 1000)"
    by (cases pv) (simp_all add: program_eval text_eval float_eval)
next
  show "compute_results
     [\<lparr>cid = ''a'', name = ''A'', weight = Finite (4503622145368633 / 4503599627370496)\<rparr>]
     [[''tool'' \<mapsto> Text ''X'', ''a'' \<mapsto> Text ''1000'']] 1 1000 =
   Some (Inr [\<lparr>tool = ''X'', weighted_score = ''1000.005'', normalized_percent = ''100.0'',
               notes' = Text []\<rparr>])"
    by (simp add: program_eval text_eval float_eval)
qed

subsection \<open>The ranking\<close>



















subsection \<open>The run\<close>

lemma score_rows_fail:
  "r \<in> set rows \<Longrightarrow> isl (score_row cs r mn mx) \<Longrightarrow> isl (score_rows cs rows mn mx)"
  by (induction rows) (auto split: sum.splits)

text \<open>
  Claim C8. When the two loaders succeed and the scoring of some row fails (a score that
  is no number, a score out of range, a missing column, a missing cell), the run ends with
  an error and leaves the world as it found it: no directory is created, no file is
  written, nothing is printed.
\<close>

theorem main_scoring_failure_writes_nothing:
  assumes "load_criteria pv data = Inr (cs, mn, mx)"
    and "load_scores file_rows = Inr rows"
    and "r \<in> set rows" and "score_row cs r mn mx = Inl e"
  shows "\<exists>e'. main pv data file_rows w = Some (Inl e', w)"
proof -
  from assms(3,4) have "isl (score_rows cs rows mn mx)" by (simp add: score_rows_fail)
  then obtain e' where "score_rows cs rows mn mx = Inl e'" by (auto simp: isl_def)
  then have "compute_results cs rows mn mx = Some (Inl e')" by (simp add: compute_results_def)
  then show ?thesis by (simp add: main_def assms(1,2))
qed

theorem main_scoring_failure_witness:
  "\<exists>e'. main Py312
     \<lparr>scale_min = None, scale_max = None,
      criteria = Some [\<lparr>entry_id = Some ''a'', entry_name = Some ''A'',
                        entry_weight = Some (YFloat (Finite 1))\<rparr>]\<rparr>
     [[''tool'' \<mapsto> Text ''X'', ''a'' \<mapsto> Text ''4''],
      [''tool'' \<mapsto> Text ''Y'', ''a'' \<mapsto> Text (''5'' @ [CHR 0x1F])]]
     \<lparr>files = Map.empty, dirs = {}, stdout = []\<rparr> =
   Some (Inl e', \<lparr>files = Map.empty, dirs = {}, stdout = []\<rparr>)"
  by (rule main_scoring_failure_writes_nothing
        [where cs = "[\<lparr>cid = ''a'', name = ''A'', weight = Finite 1\<rparr>]" and mn = 1 and mx = 5
           and rows = "[[''tool'' \<mapsto> Text ''X'', ''a'' \<mapsto> Text ''4''],
                        [''tool'' \<mapsto> Text ''Y'', ''a'' \<mapsto> Text (''5'' @ [CHR 0x1F])]]"
           and r = "[''tool'' \<mapsto> Text ''Y'', ''a'' \<mapsto> Text (''5'' @ [CHR 0x1F])]"
           and e = "FloatValueError (''5'' @ [CHR 0x1F])"])
     (simp_all add: program_eval text_eval float_eval)

end
